theory Spec2Isabelle
  imports Main "HOL-Library.Sublist"
begin

section \<open>url-get: fetching and decoding YAML or JSON at local or remote URLs\<close>

text \<open>
  A shallow embedding of \<^verbatim>\<open>index.js\<close> of the url-get module. JavaScript strings
  are modelled as \<^typ>\<open>string\<close> (lists of 8-bit characters, read as ASCII), an
  argument that may be \<^verbatim>\<open>undefined\<close> as an \<^typ>\<open>'a option\<close>, a thrown
  exception or a rejected promise as the left summand of a sum type, and the
  library functions the module calls on strings (\<^verbatim>\<open>path.basename\<close>,
  \<^verbatim>\<open>String.split\<close>, \<^verbatim>\<open>isNaN\<close>, \<^verbatim>\<open>RegExp.test\<close>) as small functions written
  after their documented behaviour on POSIX. The libraries that reach outside the
  process (\<^verbatim>\<open>fs.readFile\<close>, \<^verbatim>\<open>preq.get\<close>, \<^verbatim>\<open>new URL\<close>, \<^verbatim>\<open>yaml.safeLoad\<close>,
  \<^verbatim>\<open>Buffer.toString\<close>, \<^verbatim>\<open>path.resolve\<close>) are parameters, so that every property
  below holds whatever they do. The promise chains of the module run one handler
  after the other; the model runs them in that order, threading the options object
  and the outside world through the calls.
\<close>

subsection \<open>JavaScript helpers on strings\<close>

text \<open>Truthiness of a value that is either \<^verbatim>\<open>undefined\<close> or a string.\<close>

definition truthy :: "string option \<Rightarrow> bool" where
  "truthy v = (case v of None \<Rightarrow> False | Some s \<Rightarrow> s \<noteq> [])"

text \<open>The string a value contributes to a concatenation with \<^verbatim>\<open>+\<close>.\<close>

definition toStr :: "string option \<Rightarrow> string" where
  "toStr v = (case v of None \<Rightarrow> ''undefined'' | Some s \<Rightarrow> s)"

definition charCode :: "char \<Rightarrow> nat" where
  "charCode c = of_char c"

subsection \<open>The regular expression of \<^verbatim>\<open>uriHasProtocol\<close>\<close>

text \<open>
  The pattern \<^verbatim>\<open>/^[a-zA-Z0-9+.-]+:\/\//\<close> is kept as data: a sequence, anchored at
  the start of the input, of items that are either a character class under \<^verbatim>\<open>+\<close>
  or a literal string. \<open>matchHere\<close> is a backtracking matcher for such sequences:
  for a class under \<^verbatim>\<open>+\<close> it tries every number of repetitions from the longest
  run down to one.
\<close>

datatype classItem = Range char char | Single char

datatype regexItem = OneOrMore "classItem list" | Literal string

type_synonym regex = "regexItem list"

fun classItemMatches :: "classItem \<Rightarrow> char \<Rightarrow> bool" where
  "classItemMatches (Range lo hi) c = (charCode lo \<le> charCode c \<and> charCode c \<le> charCode hi)"
| "classItemMatches (Single x) c = (c = x)"

definition inClass :: "classItem list \<Rightarrow> char \<Rightarrow> bool" where
  "inClass cls c = list_ex (\<lambda>i. classItemMatches i c) cls"

fun matchHere :: "regex \<Rightarrow> string \<Rightarrow> bool" where
  "matchHere [] s = True"
| "matchHere (Literal l # r) s =
     (take (length l) s = l \<and> matchHere r (drop (length l) s))"
| "matchHere (OneOrMore cls # r) s =
     list_ex (\<lambda>n. matchHere r (drop n s))
       (rev [1 ..< Suc (length (takeWhile (inClass cls) s))])"

text \<open>\<^verbatim>\<open>regex.test(s)\<close> for a pattern that starts with \<^verbatim>\<open>^\<close> and has no flags.\<close>

definition regexTest :: "regex \<Rightarrow> string \<Rightarrow> bool" where
  "regexTest r s = matchHere r s"

definition uriProtocolRegex :: regex where
  "uriProtocolRegex =
     [OneOrMore [Range CHR ''a'' CHR ''z'', Range CHR ''A'' CHR ''Z'', Range CHR ''0'' CHR ''9'',
                 Single CHR ''+'', Single CHR ''.'', Single CHR ''-''],
      Literal ''://'']"

definition uriHasProtocol :: "string \<Rightarrow> bool" where
  "uriHasProtocol uri = regexTest uriProtocolRegex uri"

subsection \<open>\<^verbatim>\<open>fileExtension\<close>\<close>

text \<open>
  \<^verbatim>\<open>path.basename\<close> on POSIX: trailing slashes are dropped, then the part after the
  last remaining slash is returned.
\<close>

definition basename :: "string \<Rightarrow> string" where
  "basename p =
     rev (takeWhile (\<lambda>c. c \<noteq> CHR ''/'') (dropWhile (\<lambda>c. c = CHR ''/'') (rev p)))"

text \<open>\<^verbatim>\<open>s.split(sep)\<close> for a one-character separator: never the empty array.\<close>

fun split :: "char \<Rightarrow> string \<Rightarrow> string list" where
  "split sep [] = [[]]"
| "split sep (c # cs) =
     (if c = sep then [] # split sep cs
      else (case split sep cs of [] \<Rightarrow> [[c]] | p # ps \<Rightarrow> (c # p) # ps))"

text \<open>
  \<^verbatim>\<open>isNaN(s)\<close> on a string converts it with \<^verbatim>\<open>Number(s)\<close>, which is \<^verbatim>\<open>NaN\<close>
  exactly when \<open>s\<close> is not a \<^emph>\<open>StringNumericLiteral\<close> of ECMAScript: optional white
  space around nothing at all (the value 0), a signed decimal literal (digits with an
  optional fraction and exponent, or \<^verbatim>\<open>Infinity\<close>), or an unsigned binary, octal
  or hexadecimal integer literal. White space is the ASCII part of the standard's set.
\<close>

definition isWhiteSpace :: "char \<Rightarrow> bool" where
  "isWhiteSpace c = (charCode c \<in> {9, 10, 11, 12, 13, 32})"

definition isDecimalDigit :: "char \<Rightarrow> bool" where
  "isDecimalDigit c = (charCode CHR ''0'' \<le> charCode c \<and> charCode c \<le> charCode CHR ''9'')"

definition isHexDigit :: "char \<Rightarrow> bool" where
  "isHexDigit c =
     (isDecimalDigit c
      \<or> (charCode CHR ''a'' \<le> charCode c \<and> charCode c \<le> charCode CHR ''f'')
      \<or> (charCode CHR ''A'' \<le> charCode c \<and> charCode c \<le> charCode CHR ''F''))"

definition isOctalDigit :: "char \<Rightarrow> bool" where
  "isOctalDigit c = (charCode CHR ''0'' \<le> charCode c \<and> charCode c \<le> charCode CHR ''7'')"

definition isBinaryDigit :: "char \<Rightarrow> bool" where
  "isBinaryDigit c = (c = CHR ''0'' \<or> c = CHR ''1'')"

definition digitsOf :: "(char \<Rightarrow> bool) \<Rightarrow> string \<Rightarrow> bool" where
  "digitsOf d s = (s \<noteq> [] \<and> list_all d s)"

definition signedInteger :: "string \<Rightarrow> bool" where
  "signedInteger s =
     (case s of
        [] \<Rightarrow> False
      | c # r \<Rightarrow> if c = CHR ''+'' \<or> c = CHR ''-'' then digitsOf isDecimalDigit r
                else digitsOf isDecimalDigit s)"

definition isExponentIndicator :: "char \<Rightarrow> bool" where
  "isExponentIndicator c = (c = CHR ''e'' \<or> c = CHR ''E'')"

definition strUnsignedDecimalLiteral :: "string \<Rightarrow> bool" where
  "strUnsignedDecimalLiteral s =
     (s = ''Infinity'' \<or>
      (let mantissa = takeWhile (\<lambda>c. \<not> isExponentIndicator c) s;
           exponent = dropWhile (\<lambda>c. \<not> isExponentIndicator c) s;
           whole = takeWhile (\<lambda>c. c \<noteq> CHR ''.'') mantissa;
           fraction = dropWhile (\<lambda>c. c \<noteq> CHR ''.'') mantissa
       in list_all isDecimalDigit whole
          \<and> (if fraction = [] then whole \<noteq> []
             else list_all isDecimalDigit (tl fraction) \<and> (whole \<noteq> [] \<or> tl fraction \<noteq> []))
          \<and> (exponent = [] \<or> signedInteger (tl exponent))))"

definition strDecimalLiteral :: "string \<Rightarrow> bool" where
  "strDecimalLiteral s =
     (case s of
        [] \<Rightarrow> False
      | c # r \<Rightarrow> if c = CHR ''+'' \<or> c = CHR ''-'' then strUnsignedDecimalLiteral r
                else strUnsignedDecimalLiteral s)"

definition nonDecimalIntegerLiteral :: "string \<Rightarrow> bool" where
  "nonDecimalIntegerLiteral s =
     (case s of
        z # k # ds \<Rightarrow>
          z = CHR ''0'' \<and>
          (if k = CHR ''b'' \<or> k = CHR ''B'' then digitsOf isBinaryDigit ds
           else if k = CHR ''o'' \<or> k = CHR ''O'' then digitsOf isOctalDigit ds
           else if k = CHR ''x'' \<or> k = CHR ''X'' then digitsOf isHexDigit ds
           else False)
      | _ \<Rightarrow> False)"

definition trim :: "string \<Rightarrow> string" where
  "trim s = rev (dropWhile isWhiteSpace (rev (dropWhile isWhiteSpace s)))"

definition stringNumericLiteral :: "string \<Rightarrow> bool" where
  "stringNumericLiteral s =
     (let t = trim s in t = [] \<or> strDecimalLiteral t \<or> nonDecimalIntegerLiteral t)"

definition isNaN :: "string \<Rightarrow> bool" where
  "isNaN s = (\<not> stringNumericLiteral s)"

text \<open>
  \<^verbatim>\<open>fileExtension(filename)\<close>: the early return on a falsy argument
  (\<^verbatim>\<open>undefined\<close> or the empty string), then the last part of the base name split
  on dots, unless there is one part only or the last part is numeric.
\<close>

definition fileExtension :: "string option \<Rightarrow> string" where
  "fileExtension filename =
     (if \<not> truthy filename then []
      else (let parts = split CHR ''.'' (basename (toStr filename))
            in if length parts > 1 \<and> isNaN (parts ! (length parts - 1))
               then parts ! (length parts - 1)
               else []))"

subsection \<open>\<^verbatim>\<open>resolveUri\<close>\<close>

text \<open>
  \<^verbatim>\<open>path.resolve\<close> reads the working directory of the process, so it is a
  parameter of the model: \<open>pathResolve\<close> maps a path to its absolute form.
\<close>

definition resolveUri ::
  "(string \<Rightarrow> string) \<Rightarrow> string \<Rightarrow> string option \<Rightarrow> string option \<Rightarrow> string" where
  "resolveUri pathResolve uri baseUri defaultFileExtension =
     (let url = uri;
          url = (if fileExtension (Some uri) = [] \<and> truthy defaultFileExtension
                 then uri @ toStr defaultFileExtension else url);
          url = (if truthy baseUri \<and> \<not> uriHasProtocol url
                 then toStr baseUri @ url else url);
          url = (if \<not> uriHasProtocol url
                 then ''file://'' @ pathResolve url else url)
      in url)"

text \<open>
  The value of \<^verbatim>\<open>url\<close> in \<^verbatim>\<open>resolveUri\<close> when its last test is reached: the
  first two steps of the function, on their own.
\<close>

definition qualifiedUrl :: "string \<Rightarrow> string option \<Rightarrow> string option \<Rightarrow> string" where
  "qualifiedUrl uri baseUri defaultFileExtension =
     (let url = uri;
          url = (if fileExtension (Some uri) = [] \<and> truthy defaultFileExtension
                 then uri @ toStr defaultFileExtension else url);
          url = (if truthy baseUri \<and> \<not> uriHasProtocol url
                 then toStr baseUri @ url else url)
      in url)"

subsection \<open>Values, options, errors and collaborators\<close>

text \<open>
  The JavaScript values the module inspects. A \<^verbatim>\<open>Buffer\<close> holds bytes; arrays,
  functions and buffers are objects for \<^verbatim>\<open>_.isObject\<close>. Numbers only need to
  be told apart from the other shapes, so an integer stands for them.
\<close>

datatype jsval =
    JUndefined
  | JNull
  | JBoolean bool
  | JNumber int
  | JString string
  | JBuffer string
  | JObject "(string \<times> jsval) list"
  | JArray "jsval list"
  | JFunction

text \<open>The options bag is a mutable object: a map from field names to values.\<close>

type_synonym options = "string \<rightharpoonup> jsval"

text \<open>
  What a promise can be rejected with (or a function can throw): \<open>Undefined\<close> is the
  reason of \<^verbatim>\<open>P.reject()\<close>, \<open>Error\<close> the exception \<^verbatim>\<open>objectFactory\<close> throws
  itself, the others come from the collaborators.
\<close>

datatype error =
    Undefined
  | Error string
  | YAMLException string
  | SystemError string
  | HTTPError nat
  | TypeError string

record response =
  status :: nat
  body :: jsval

text \<open>
  The libraries the module delegates to are parameters of the model. The file
  system and the network are a world \<open>'w\<close> that every read and request may change.
  The reader and the HTTP client are handed the caller's options object itself, not
  a copy, and may write into it (\<^verbatim>\<open>preq.get\<close> stores its method, headers and
  defaults there): besides how their promise settles and the world they leave, they
  return the fields of that object after the call. \<^verbatim>\<open>new URL(url).pathname\<close>
  throws on an invalid URL; \<^verbatim>\<open>yaml.safeLoad\<close> throws on malformed text.
\<close>

record 'w collaborators =
  readFile :: "string \<Rightarrow> options \<Rightarrow> 'w \<Rightarrow> (error + jsval) \<times> options \<times> 'w"
  preqGet :: "options \<Rightarrow> 'w \<Rightarrow> (error + response) \<times> options \<times> 'w"
  urlPathname :: "string \<Rightarrow> error + string"
  safeLoad :: "string \<Rightarrow> error + jsval"
  bufferToString :: "string \<Rightarrow> string"
  pathResolve :: "string \<Rightarrow> string"

text \<open>The default parameter \<^verbatim>\<open>options = {}\<close>: a fresh empty object when omitted.\<close>

definition optionsOrDefault :: "options option \<Rightarrow> options" where
  "optionsOrDefault optionsArg = (case optionsArg of None \<Rightarrow> Map.empty | Some opts \<Rightarrow> opts)"

text \<open>An argument that is either one value or an array of them (\<^verbatim>\<open>_.isArray\<close>).\<close>

datatype 'a oneOrMany = One 'a | Many "'a list"

definition asArray :: "'a oneOrMany \<Rightarrow> 'a list" where
  "asArray x = (case x of One v \<Rightarrow> [v] | Many vs \<Rightarrow> vs)"

subsection \<open>\<^verbatim>\<open>objectFactory\<close>\<close>

text \<open>
  The tests of the source in their order: a \<^verbatim>\<open>Buffer\<close> is replaced by its text
  and falls through to the string test, which it passes; any other object is returned
  at once; a string is parsed; everything else throws.
\<close>

definition instanceofBuffer :: "jsval \<Rightarrow> bool" where
  "instanceofBuffer v = (case v of JBuffer _ \<Rightarrow> True | _ \<Rightarrow> False)"

definition isObject :: "jsval \<Rightarrow> bool" where
  "isObject v =
     (case v of JObject _ \<Rightarrow> True | JArray _ \<Rightarrow> True | JFunction \<Rightarrow> True
              | JBuffer _ \<Rightarrow> True | _ \<Rightarrow> False)"

definition isString :: "jsval \<Rightarrow> bool" where
  "isString v = (case v of JString _ \<Rightarrow> True | _ \<Rightarrow> False)"

definition objectFactory :: "'w collaborators \<Rightarrow> jsval \<Rightarrow> error + jsval" where
  "objectFactory c data =
     (case data of
        JBuffer bytes \<Rightarrow> safeLoad c (bufferToString c bytes)
      | _ \<Rightarrow>
          if isObject data then Inr data
          else (case data of
                  JString text \<Rightarrow> safeLoad c text
                | _ \<Rightarrow> Inl (Error (''Could not convert data into an object.  '' @
                                  ''Data must be a utf-8 byte buffer or a YAML/JSON string''))))"

subsection \<open>\<^verbatim>\<open>urlGet\<close> and \<^verbatim>\<open>urlGetObject\<close>\<close>

text \<open>
  A call returns how its promise settles (a synchronous throw counts as a
  rejection), the fields of the options object after the call, and the world after
  the call. The only write of \<^verbatim>\<open>urlGet\<close> itself is \<^verbatim>\<open>options.uri = url\<close>; what
  the object holds afterwards is what the collaborator that received it left there.
\<close>

definition urlGet ::
  "'w collaborators \<Rightarrow> string \<Rightarrow> options option \<Rightarrow> 'w \<Rightarrow> (error + jsval) \<times> options \<times> 'w" where
  "urlGet c url optionsArg w =
     (let options = optionsOrDefault optionsArg in
      if \<not> uriHasProtocol url then
        readFile c url options w
      else if prefix ''file://'' url then
        (case urlPathname c url of
           Inl e \<Rightarrow> (Inl e, options, w)
         | Inr pathname \<Rightarrow> readFile c pathname options w)
      else
        (let options = options(''uri'' \<mapsto> JString url) in
         case preqGet c options w of
           (Inl e, options', w') \<Rightarrow> (Inl e, options', w')
         | (Inr res, options', w') \<Rightarrow> (Inr (body res), options', w')))"

definition urlGetObject ::
  "'w collaborators \<Rightarrow> string \<Rightarrow> options option \<Rightarrow> 'w \<Rightarrow> (error + jsval) \<times> options \<times> 'w" where
  "urlGetObject c url optionsArg w =
     (let options = optionsOrDefault optionsArg in
      case urlGet c url (Some options) w of
        (Inl e, options', w') \<Rightarrow> (Inl e, options', w')
      | (Inr content, options', w') \<Rightarrow> (objectFactory c content, options', w'))"

subsection \<open>\<^verbatim>\<open>urlGetFirstObject\<close> and \<^verbatim>\<open>uriGetFirstObject\<close>\<close>

text \<open>
  The promise chain built by \<^verbatim>\<open>reduce\<close>: \<open>catchWith\<close> is one
  \<^verbatim>\<open>promise.catch(() => urlGetObject(url, options))\<close>. The handler runs only when
  the promise before it is rejected, and then ignores the reason; a fulfilled promise
  passes through. Besides the settled promise, the options and the world, the model
  keeps the list of URLs whose handler ran.
\<close>

type_synonym 'w chain = "(error + jsval) \<times> options \<times> 'w \<times> string list"

definition catchWith :: "'w collaborators \<Rightarrow> string \<Rightarrow> 'w chain \<Rightarrow> 'w chain" where
  "catchWith c url chain =
     (case chain of
        (Inr v, options, w, attempted) \<Rightarrow> (Inr v, options, w, attempted)
      | (Inl _, options, w, attempted) \<Rightarrow>
          (case urlGetObject c url (Some options) w of
             (r, options', w') \<Rightarrow> (r, options', w', attempted @ [url])))"

definition urlGetFirstObject ::
  "'w collaborators \<Rightarrow> string oneOrMany \<Rightarrow> options option \<Rightarrow> 'w \<Rightarrow> 'w chain" where
  "urlGetFirstObject c urls optionsArg w =
     (let options = optionsOrDefault optionsArg;
          urls = asArray urls
      in fold (catchWith c) urls (Inl Undefined, options, w, []))"

definition uriGetFirstObject ::
  "'w collaborators \<Rightarrow> string \<Rightarrow> string option oneOrMany \<Rightarrow> string option \<Rightarrow>
     options option \<Rightarrow> 'w \<Rightarrow> 'w chain" where
  "uriGetFirstObject c uri baseUris defaultFileExtension optionsArg w =
     (let options = optionsOrDefault optionsArg;
          baseUris = asArray baseUris;
          urls = map (\<lambda>baseUri. resolveUri (pathResolve c) uri baseUri defaultFileExtension)
                   baseUris
      in urlGetFirstObject c (Many urls) (Some options) w)"

text \<open>The fields of the options object after a call, from what the call returns.\<close>

definition optionsAfter :: "'a \<times> options \<times> 'b \<Rightarrow> options" where
  "optionsAfter outcome = fst (snd outcome)"

subsection \<open>A sample environment\<close>

text \<open>
  One file, \<^verbatim>\<open>/tmp/x.yaml\<close>, and a server with one document and one permanent
  redirect to it; the world records the paths and URLs that were requested. The
  reader leaves the options alone. The client writes its method and, unless one is
  given, its default timeout into the options, follows the redirect unless the
  options say \<^verbatim>\<open>followRedirect: false\<close>, and rejects a response whose status is
  400 or more. The URL parser answers for a file URL made of an authority and a
  plain path. The YAML parser knows the one document and rejects an unclosed flow
  sequence.
\<close>

definition sampleCollaborators :: "string list collaborators" where
  "sampleCollaborators =
     \<lparr> readFile = (\<lambda>path options w.
         (if path = ''/tmp/x.yaml'' then Inr (JBuffer ''a: A'') else Inl (SystemError ''ENOENT''),
          options, w @ [path])),
       preqGet = (\<lambda>options w.
         (let configured = options
                (''method'' \<mapsto> JString ''get'',
                 ''timeout'' \<mapsto> (case options ''timeout'' of
                                   None \<Rightarrow> JNumber 120000 | Some t \<Rightarrow> t))
          in case options ''uri'' of
               Some (JString u) \<Rightarrow>
                 (if u = ''http://h.example/x.yaml''
                  then Inr \<lparr> status = 200, body = JString ''a: A'' \<rparr>
                  else if u = ''http://h.example/moved.yaml''
                  then (if options ''followRedirect'' = Some (JBoolean False)
                        then Inr \<lparr> status = 301, body = JString ''Moved Permanently'' \<rparr>
                        else Inr \<lparr> status = 200, body = JString ''a: A'' \<rparr>)
                  else Inl (HTTPError 404),
                  configured, w @ [u])
             | _ \<Rightarrow> (Inl (TypeError ''options.uri''), configured, w))),
       urlPathname = (\<lambda>url.
         if prefix ''file://'' url
         then (let path = dropWhile (\<lambda>c. c \<noteq> CHR ''/'') (drop 7 url)
               in Inr (if path = [] then ''/'' else path))
         else Inl (TypeError ''ERR_INVALID_URL'')),
       safeLoad = (\<lambda>text.
         if text = ''a: A'' then Inr (JObject [(''a'', JString ''A'')])
         else if text = ''['' then Inl (YAMLException ''unexpected end of the stream'')
         else Inr (JString text)),
       bufferToString = (\<lambda>bytes. bytes),
       pathResolve = (\<lambda>p. if take 1 p = ''/'' then p else ''/cwd/'' @ p) \<rparr>"

subsection \<open>The specification's wording, for comparison\<close>

text \<open>
  The set \<^verbatim>\<open>[A-Za-z0-9+.-]\<close> of the specification's protocol detector, written
  out character by character.
\<close>

definition schemeAlphabet :: string where
  "schemeAlphabet = ''ABCDEFGHIJKLMNOPQRSTUVWXYZabcdefghijklmnopqrstuvwxyz0123456789+.-''"

text \<open>
  The four steps of the specification's URI resolver, where an optional argument
  counts as provided when it is not \<^verbatim>\<open>undefined\<close>.
\<close>

definition resolveUri_spec ::
  "(string \<Rightarrow> string) \<Rightarrow> string \<Rightarrow> string option \<Rightarrow> string option \<Rightarrow> string" where
  "resolveUri_spec absolutePath identifier baseLocation defaultExtension =
     (let url = identifier;
          url = (case defaultExtension of
                   Some ext \<Rightarrow>
                     if fileExtension (Some identifier) = [] then identifier @ ext else url
                 | None \<Rightarrow> url);
          url = (case baseLocation of
                   Some base \<Rightarrow> if \<not> uriHasProtocol url then base @ url else url
                 | None \<Rightarrow> url)
      in if \<not> uriHasProtocol url then ''file://'' @ absolutePath url else url)"

section \<open>Properties\<close>

subsection \<open>The protocol detector\<close>

lemma matchHere_plus_literal:
  "matchHere [OneOrMore cls, Literal l] s \<longleftrightarrow>
     (\<exists>n. 1 \<le> n \<and> n \<le> length (takeWhile (inClass cls) s) \<and> take (length l) (drop n s) = l)"
  by (auto simp: list_ex_iff)

lemma take_run_in_class:
  assumes "n \<le> length (takeWhile P s)"
  shows "list_all P (take n s)"
proof -
  have "take n s = take n (takeWhile P s @ dropWhile P s)" by simp
  also have "\<dots> = take n (takeWhile P s)" using assms by (simp del: takeWhile_dropWhile_id)
  finally have "set (take n s) \<subseteq> set (takeWhile P s)" by (simp add: set_take_subset)
  then show ?thesis by (auto simp: list_all_iff dest: set_takeWhileD)
qed

lemma run_of_prefix:
  assumes "list_all P xs" and "\<not> P y"
  shows "takeWhile P (xs @ y # ys) = xs"
  using assms by (induction xs) auto

lemma file_scheme_has_protocol: "uriHasProtocol (''file://'' @ s)"
  by (simp add: uriHasProtocol_def regexTest_def uriProtocolRegex_def inClass_def charCode_def)

lemma prefix_file_has_protocol: "prefix ''file://'' url \<Longrightarrow> uriHasProtocol url"
  by (auto simp: prefix_def file_scheme_has_protocol simp del: append.simps)

text \<open>
  Claim C8. \<open>uriHasProtocol uri\<close> is true exactly when \<open>uri\<close> starts with one or
  more characters of the set \<^verbatim>\<open>[A-Za-z0-9+.-]\<close> followed immediately by
  \<^verbatim>\<open>://\<close>; which scheme it is plays no role.
\<close>

theorem uriHasProtocol_iff_scheme:
  "uriHasProtocol uri \<longleftrightarrow>
     (\<exists>scheme rest. scheme \<noteq> [] \<and> list_all (\<lambda>c. c \<in> set schemeAlphabet) scheme
        \<and> uri = scheme @ ''://'' @ rest)"
proof -
  let ?cls = "[Range CHR ''a'' CHR ''z'', Range CHR ''A'' CHR ''Z'', Range CHR ''0'' CHR ''9'',
               Single CHR ''+'', Single CHR ''.'', Single CHR ''-'']"
  let ?P = "inClass ?cls"
  have cls: "?P c \<longleftrightarrow> c \<in> set schemeAlphabet" for c
    by (cases c) (simp add: inClass_def schemeAlphabet_def charCode_def)
  have clsfun: "?P = (\<lambda>c. c \<in> set schemeAlphabet)"
    by (rule ext) (rule cls)
  have colon: "\<not> ?P CHR '':''"
    by (simp add: inClass_def charCode_def)
  have unfold: "uriHasProtocol uri \<longleftrightarrow>
      (\<exists>n. 1 \<le> n \<and> n \<le> length (takeWhile ?P uri) \<and> take 3 (drop n uri) = ''://'')"
    unfolding uriHasProtocol_def regexTest_def uriProtocolRegex_def matchHere_plus_literal
    by (simp add: eval_nat_numeral)
  show ?thesis
  proof
    assume "uriHasProtocol uri"
    then obtain n where n: "1 \<le> n" "n \<le> length (takeWhile ?P uri)"
      and lit: "take 3 (drop n uri) = ''://''"
      using unfold by blast
    have "list_all ?P (take n uri)" using n(2) by (rule take_run_in_class)
    then have a: "list_all (\<lambda>c. c \<in> set schemeAlphabet) (take n uri)"
      by (simp only: clsfun)
    have "length (takeWhile ?P uri) \<le> length uri" by (rule length_takeWhile_le)
    then have b: "take n uri \<noteq> []" using n by auto
    have "drop n uri = take 3 (drop n uri) @ drop 3 (drop n uri)"
      by (simp only: append_take_drop_id)
    then have "uri = take n uri @ take 3 (drop n uri) @ drop 3 (drop n uri)"
      by (metis append_take_drop_id)
    then have "uri = take n uri @ ''://'' @ drop 3 (drop n uri)" using lit by simp
    with a b show "\<exists>scheme rest. scheme \<noteq> [] \<and> list_all (\<lambda>c. c \<in> set schemeAlphabet) scheme
        \<and> uri = scheme @ ''://'' @ rest" by blast
  next
    assume "\<exists>scheme rest. scheme \<noteq> [] \<and> list_all (\<lambda>c. c \<in> set schemeAlphabet) scheme
        \<and> uri = scheme @ ''://'' @ rest"
    then obtain scheme rest where s: "scheme \<noteq> []"
      and a: "list_all (\<lambda>c. c \<in> set schemeAlphabet) scheme"
      and u: "uri = scheme @ ''://'' @ rest" by blast
    from a have "list_all ?P scheme" by (simp only: clsfun)
    then have "takeWhile ?P (scheme @ CHR '':'' # (''//'' @ rest)) = scheme"
      using colon by (rule run_of_prefix)
    then have run: "takeWhile ?P uri = scheme" using u by simp
    have "1 \<le> length scheme" using s by (cases scheme) auto
    moreover have "take 3 (drop (length scheme) uri) = ''://''" using u by simp
    ultimately show "uriHasProtocol uri" using unfold run by auto
  qed
qed

theorem uriHasProtocol_iff_scheme_witness:
  "uriHasProtocol ''x-y.z+1://host/path'' \<and> \<not> uriHasProtocol ''path/to/file.yaml''"
proof -
  have "''x-y.z+1'' \<noteq> [] \<and> list_all (\<lambda>c. c \<in> set schemeAlphabet) ''x-y.z+1''
      \<and> ''x-y.z+1://host/path'' = ''x-y.z+1'' @ ''://'' @ ''host/path''"
    by (simp add: schemeAlphabet_def)
  then have "uriHasProtocol ''x-y.z+1://host/path''"
    using uriHasProtocol_iff_scheme [of "''x-y.z+1://host/path''"] by blast
  moreover have "\<not> uriHasProtocol ''path/to/file.yaml''"
    by (simp add: uriHasProtocol_def regexTest_def uriProtocolRegex_def inClass_def charCode_def)
  ultimately show ?thesis by simp
qed

subsection \<open>The extension detector\<close>

lemma split_not_empty: "split sep s \<noteq> []"
  by (induction s) (auto split: list.splits)

text \<open>
  Claim C7. \<open>fileExtension\<close> is total; on \<^verbatim>\<open>undefined\<close> and on the empty string it
  is the empty string; on a string it is the empty string when the base name split on
  dots has fewer than two parts, the empty string when the last part converts to a
  number (\<^verbatim>\<open>isNaN\<close> is false), and the last part itself otherwise.
\<close>

theorem fileExtension_cases:
  "fileExtension None = [] \<and> fileExtension (Some []) = [] \<and>
   fileExtension (Some name) =
     (let parts = split CHR ''.'' (basename name)
      in if length parts < 2 then []
         else if \<not> isNaN (last parts) then []
         else last parts)"
proof -
  have "split CHR ''.'' (basename name) \<noteq> []" by (rule split_not_empty)
  then have l: "split CHR ''.'' (basename name) ! (length (split CHR ''.'' (basename name)) - Suc 0)
      = last (split CHR ''.'' (basename name))"
    by (simp add: last_conv_nth)
  have e: "basename [] = []" by (simp add: basename_def)
  show ?thesis
    by (cases "name = []") (auto simp: fileExtension_def truthy_def toStr_def Let_def l e)
qed

theorem fileExtension_cases_witness:
  "fileExtension (Some ''path/to/file.yaml'') = ''yaml'' \<and>
   fileExtension (Some ''path/to/file/0.0.3'') = []"
proof -
  have a: "split CHR ''.'' (basename ''path/to/file.yaml'') = [''file'', ''yaml'']"
    by (simp add: basename_def)
  have b: "isNaN ''yaml''" by code_simp
  have c: "split CHR ''.'' (basename ''path/to/file/0.0.3'') = [''0'', ''0'', ''3'']"
    by (simp add: basename_def)
  have d: "\<not> isNaN ''3''" by code_simp
  show ?thesis
    using fileExtension_cases [of "''path/to/file.yaml''"]
      fileExtension_cases [of "''path/to/file/0.0.3''"]
    by (simp add: a b c d)
qed

subsection \<open>The URI resolver\<close>

text \<open>
  Claim C2. \<open>resolveUri\<close> computes the specification's steps in their order: the
  default extension is appended when the identifier has no extension and a default is
  given, the base location is prepended when one is given and the string has no
  protocol, and a string still without protocol becomes \<^verbatim>\<open>file://\<close> followed by
  its absolute path. (An empty default extension or base location is skipped by the
  code and appended by the steps, with the same string as result.)
\<close>

theorem resolveUri_steps:
  "resolveUri absolutePath identifier baseLocation defaultExtension =
     resolveUri_spec absolutePath identifier baseLocation defaultExtension"
  by (cases baseLocation; cases defaultExtension)
     (simp_all add: resolveUri_def resolveUri_spec_def truthy_def toStr_def Let_def)

theorem resolveUri_steps_witness:
  "resolveUri (\<lambda>p. ''/cwd/'' @ p) ''a/b'' (Some ''http://h.example/'') (Some ''.yaml'') =
     ''http://h.example/a/b.yaml'' \<and>
   resolveUri (\<lambda>p. ''/cwd/'' @ p) ''a/b'' None (Some ''.yaml'') = ''file:///cwd/a/b.yaml''"
proof -
  have "resolveUri_spec (\<lambda>p. ''/cwd/'' @ p) ''a/b'' (Some ''http://h.example/'') (Some ''.yaml'') =
     ''http://h.example/a/b.yaml''"
    by code_simp
  moreover have "resolveUri_spec (\<lambda>p. ''/cwd/'' @ p) ''a/b'' None (Some ''.yaml'') =
     ''file:///cwd/a/b.yaml''"
    by code_simp
  ultimately show ?thesis
    using resolveUri_steps [of "\<lambda>p. ''/cwd/'' @ p" "''a/b''" "Some ''http://h.example/''"
        "Some ''.yaml''"]
      resolveUri_steps [of "\<lambda>p. ''/cwd/'' @ p" "''a/b''" None "Some ''.yaml''"]
    by simp
qed

lemma takeWhile_append_longer:
  "length (takeWhile P xs) \<le> length (takeWhile P (xs @ ys))"
  by (induction xs) auto

lemma uriHasProtocol_run:
  "uriHasProtocol uri \<longleftrightarrow>
     (\<exists>n. 1 \<le> n
        \<and> n \<le> length (takeWhile
              (inClass [Range CHR ''a'' CHR ''z'', Range CHR ''A'' CHR ''Z'',
                        Range CHR ''0'' CHR ''9'', Single CHR ''+'', Single CHR ''.'',
                        Single CHR ''-'']) uri)
        \<and> take 3 (drop n uri) = ''://'')"
  unfolding uriHasProtocol_def regexTest_def uriProtocolRegex_def matchHere_plus_literal
  by (simp add: eval_nat_numeral)

lemma uriHasProtocol_append:
  assumes "uriHasProtocol a"
  shows "uriHasProtocol (a @ b)"
proof -
  let ?P = "inClass [Range CHR ''a'' CHR ''z'', Range CHR ''A'' CHR ''Z'',
                     Range CHR ''0'' CHR ''9'', Single CHR ''+'', Single CHR ''.'',
                     Single CHR ''-'']"
  obtain n where n: "1 \<le> n" "n \<le> length (takeWhile ?P a)"
    and lit: "take 3 (drop n a) = ''://''"
    using assms uriHasProtocol_run [of a] by blast
  have "length (take 3 (drop n a)) = 3" using lit by simp
  then have long: "3 \<le> length (drop n a)" by simp
  then have "n \<le> length a" by simp
  then have "drop n (a @ b) = drop n a @ b" by simp
  then have "take 3 (drop n (a @ b)) = ''://''" using long lit by simp
  moreover have "n \<le> length (takeWhile ?P (a @ b))"
    using n(2) takeWhile_append_longer [of ?P a b] by simp
  ultimately show ?thesis using n(1) uriHasProtocol_run [of "a @ b"] by blast
qed

lemma resolveUri_by_qualifiedUrl:
  "resolveUri absolutePath uri baseUri defaultFileExtension =
     (if uriHasProtocol (qualifiedUrl uri baseUri defaultFileExtension)
      then qualifiedUrl uri baseUri defaultFileExtension
      else ''file://'' @ absolutePath (qualifiedUrl uri baseUri defaultFileExtension))"
  by (simp add: resolveUri_def qualifiedUrl_def Let_def)

lemma qualifiedUrl_of_uri_with_protocol:
  assumes "uriHasProtocol uri"
  shows "uriHasProtocol (qualifiedUrl uri baseUri defaultFileExtension)"
  using assms uriHasProtocol_append [of uri "toStr defaultFileExtension"]
  by (simp add: qualifiedUrl_def Let_def)

lemma qualifiedUrl_of_base_with_protocol:
  assumes "truthy baseUri" and "uriHasProtocol (toStr baseUri)"
  shows "uriHasProtocol (qualifiedUrl uri baseUri defaultFileExtension)"
  using assms uriHasProtocol_append [of "toStr baseUri"]
  by (simp add: qualifiedUrl_def Let_def)

text \<open>
  Claim C3, as the code has it. The claim says that any filesystem component of the
  result is made absolute; a base location that carries a protocol is prepended as
  it is, and the relative path it brings never reaches \<^verbatim>\<open>path.resolve\<close>:
\<close>

theorem resolveUri_keeps_relative_path:
  "resolveUri (pathResolve sampleCollaborators) ''a/b'' (Some ''file://rel/'') None =
     ''file://rel/a/b''
   \<and> pathResolve sampleCollaborators ''rel/a/b'' = ''/cwd/rel/a/b''"
proof -
  have "resolveUri (pathResolve sampleCollaborators) ''a/b'' (Some ''file://rel/'') None =
     ''file://rel/a/b''"
    by code_simp
  moreover have "pathResolve sampleCollaborators ''rel/a/b'' = ''/cwd/rel/a/b''"
    by (simp add: sampleCollaborators_def)
  ultimately show ?thesis by simp
qed

text \<open>
  Claim C3, amended. \<open>resolveUri\<close> is a total function of its three arguments and
  of the absolute-path function (the only thing it reads from its environment), and
  its result always has a protocol, whatever the absolute-path function returns. The
  path is made absolute, and prefixed with \<^verbatim>\<open>file://\<close>, exactly when the string
  obtained by appending the extension and prepending the base location has no
  protocol. When that string has one, which is so whenever the identifier has one or
  a non-empty base location has one, it is the result as it stands, and no path in it
  is made absolute.
\<close>

theorem resolveUri_has_protocol:
  "uriHasProtocol (resolveUri absolutePath uri baseUri defaultFileExtension)
   \<and> resolveUri absolutePath uri baseUri defaultFileExtension =
       (if uriHasProtocol (qualifiedUrl uri baseUri defaultFileExtension)
        then qualifiedUrl uri baseUri defaultFileExtension
        else ''file://'' @ absolutePath (qualifiedUrl uri baseUri defaultFileExtension))
   \<and> (uriHasProtocol uri \<or> (truthy baseUri \<and> uriHasProtocol (toStr baseUri)) \<longrightarrow>
        resolveUri absolutePath uri baseUri defaultFileExtension =
          qualifiedUrl uri baseUri defaultFileExtension)"
proof -
  have "uriHasProtocol (resolveUri absolutePath uri baseUri defaultFileExtension)"
    by (simp add: resolveUri_def Let_def file_scheme_has_protocol del: append.simps)
  moreover have "uriHasProtocol (qualifiedUrl uri baseUri defaultFileExtension)"
    if "uriHasProtocol uri \<or> (truthy baseUri \<and> uriHasProtocol (toStr baseUri))"
    using that qualifiedUrl_of_uri_with_protocol qualifiedUrl_of_base_with_protocol by blast
  ultimately show ?thesis
    by (simp add: resolveUri_by_qualifiedUrl)
qed

theorem resolveUri_has_protocol_witness:
  "uriHasProtocol (resolveUri (pathResolve sampleCollaborators) ''a/b'' None None)
   \<and> resolveUri (pathResolve sampleCollaborators) ''a/b'' None None = ''file:///cwd/a/b''
   \<and> resolveUri (pathResolve sampleCollaborators) ''a/b'' (Some ''http://h.example/'') None =
       ''http://h.example/a/b''"
proof -
  have a: "qualifiedUrl ''a/b'' None None = ''a/b''"
    by code_simp
  have b: "\<not> uriHasProtocol ''a/b''"
    by code_simp
  have c: "pathResolve sampleCollaborators ''a/b'' = ''/cwd/a/b''"
    by (simp add: sampleCollaborators_def)
  have d: "truthy (Some ''http://h.example/'') \<and> uriHasProtocol (toStr (Some ''http://h.example/''))"
    by code_simp
  have e: "qualifiedUrl ''a/b'' (Some ''http://h.example/'') None = ''http://h.example/a/b''"
    by code_simp
  have r1: "resolveUri (pathResolve sampleCollaborators) ''a/b'' None None = ''file:///cwd/a/b''"
    using resolveUri_has_protocol [of "pathResolve sampleCollaborators" "''a/b''" None None]
    by (simp add: a b c)
  have "resolveUri (pathResolve sampleCollaborators) ''a/b''
      (Some ''http://h.example/'') None = qualifiedUrl ''a/b'' (Some ''http://h.example/'') None"
    using resolveUri_has_protocol [of "pathResolve sampleCollaborators" "''a/b''"
        "Some ''http://h.example/''" None] d
    by blast
  then have r2: "resolveUri (pathResolve sampleCollaborators) ''a/b''
      (Some ''http://h.example/'') None = ''http://h.example/a/b''"
    by (simp only: e)
  have p: "uriHasProtocol (resolveUri (pathResolve sampleCollaborators) ''a/b'' None None)"
    using resolveUri_has_protocol [of "pathResolve sampleCollaborators" "''a/b''" None None]
    by blast
  from p r1 r2 show ?thesis by blast
qed

subsection \<open>The promise chain of \<^verbatim>\<open>urlGetFirstObject\<close>\<close>

lemma fold_catchWith_fulfilled:
  "fold (catchWith c) urls (Inr v, opts, w, attempted) = (Inr v, opts, w, attempted)"
  by (induction urls) (simp_all add: catchWith_def)

lemma catchWith_log:
  "catchWith c url (r, opts, w, attempted) =
     (case catchWith c url (r, opts, w, []) of
        (r', opts', w', attempted') \<Rightarrow> (r', opts', w', attempted @ attempted'))"
  by (cases r) (simp_all add: catchWith_def split: prod.splits)

lemma fold_catchWith_log:
  "fold (catchWith c) urls (r, opts, w, attempted) =
     (case fold (catchWith c) urls (r, opts, w, []) of
        (r', opts', w', attempted') \<Rightarrow> (r', opts', w', attempted @ attempted'))"
proof (induction urls arbitrary: r opts w attempted)
  case Nil
  then show ?case by simp
next
  case (Cons url urls)
  obtain r1 o1 w1 t1 where step: "catchWith c url (r, opts, w, []) = (r1, o1, w1, t1)"
    by (cases "catchWith c url (r, opts, w, [])") auto
  then have step': "catchWith c url (r, opts, w, attempted) = (r1, o1, w1, attempted @ t1)"
    using catchWith_log [of c url r opts w attempted] by simp
  obtain r2 o2 w2 t2 where rest: "fold (catchWith c) urls (r1, o1, w1, []) = (r2, o2, w2, t2)"
    by (cases "fold (catchWith c) urls (r1, o1, w1, [])") auto
  have "fold (catchWith c) urls (r1, o1, w1, attempted @ t1) = (r2, o2, w2, (attempted @ t1) @ t2)"
    using Cons.IH [of r1 o1 w1 "attempted @ t1"] rest by simp
  moreover have "fold (catchWith c) urls (r1, o1, w1, t1) = (r2, o2, w2, t1 @ t2)"
    using Cons.IH [of r1 o1 w1 t1] rest by simp
  ultimately show ?case using step step' by simp
qed

lemma catchWith_any_reason:
  "catchWith c url (Inl e, opts, w, attempted) = catchWith c url (Inl e', opts, w, attempted)"
  by (simp add: catchWith_def)

lemma fold_catchWith_any_reason:
  "urls \<noteq> [] \<Longrightarrow>
   fold (catchWith c) urls (Inl e, opts, w, attempted) =
   fold (catchWith c) urls (Inl e', opts, w, attempted)"
  by (cases urls) (simp_all add: catchWith_any_reason [of c _ e _ _ _ e'])

lemma sample_missing_file:
  "urlGetObject sampleCollaborators ''/tmp/missing.yaml'' (Some Map.empty) [] =
     (Inl (SystemError ''ENOENT''), Map.empty, [''/tmp/missing.yaml''])"
  by (simp add: urlGetObject_def urlGet_def optionsOrDefault_def sampleCollaborators_def
      uriHasProtocol_def regexTest_def uriProtocolRegex_def inClass_def charCode_def)

lemma sample_file_url:
  "urlGetObject sampleCollaborators ''file:///tmp/x.yaml'' (Some Map.empty)
       [''/tmp/missing.yaml''] =
     (Inr (JObject [(''a'', JString ''A'')]), Map.empty,
      [''/tmp/missing.yaml'', ''/tmp/x.yaml''])"
  by (simp add: urlGetObject_def urlGet_def optionsOrDefault_def sampleCollaborators_def
      objectFactory_def
      uriHasProtocol_def regexTest_def uriProtocolRegex_def inClass_def charCode_def)

lemma sample_remote_missing:
  "urlGetObject sampleCollaborators ''http://h.example/y.yaml'' (Some Map.empty) [] =
     (Inl (HTTPError 404),
      [''uri'' \<mapsto> JString ''http://h.example/y.yaml'', ''method'' \<mapsto> JString ''get'',
       ''timeout'' \<mapsto> JNumber 120000],
      [''http://h.example/y.yaml''])"
  by (simp add: urlGetObject_def urlGet_def optionsOrDefault_def sampleCollaborators_def
      uriHasProtocol_def regexTest_def uriProtocolRegex_def inClass_def charCode_def)

lemma sample_missing_file_after:
  "urlGetObject sampleCollaborators ''/tmp/missing.yaml''
       (Some [''uri'' \<mapsto> JString ''http://h.example/y.yaml'', ''method'' \<mapsto> JString ''get'',
              ''timeout'' \<mapsto> JNumber 120000])
       [''http://h.example/y.yaml''] =
     (Inl (SystemError ''ENOENT''),
      [''uri'' \<mapsto> JString ''http://h.example/y.yaml'', ''method'' \<mapsto> JString ''get'',
       ''timeout'' \<mapsto> JNumber 120000],
      [''http://h.example/y.yaml'', ''/tmp/missing.yaml''])"
  by (simp add: urlGetObject_def urlGet_def optionsOrDefault_def sampleCollaborators_def
      uriHasProtocol_def regexTest_def uriProtocolRegex_def inClass_def charCode_def)

lemma urlGetFirstObject_unfold:
  "urlGetFirstObject c (Many (url # rest)) optionsArg w =
     (case urlGetObject c url (Some (optionsOrDefault optionsArg)) w of
        (Inr v, options', w') \<Rightarrow> (Inr v, options', w', [url])
      | (Inl e, options', w') \<Rightarrow>
          if rest = [] then (Inl e, options', w', [url])
          else (case urlGetFirstObject c (Many rest) (Some options') w' of
                  (r, options'', w'', attempted) \<Rightarrow> (r, options'', w'', url # attempted)))"
proof -
  obtain r1 o1 w1
    where first: "urlGetObject c url (Some (optionsOrDefault optionsArg)) w = (r1, o1, w1)"
    by (cases "urlGetObject c url (Some (optionsOrDefault optionsArg)) w") auto
  have unfold: "urlGetFirstObject c (Many (url # rest)) optionsArg w =
      fold (catchWith c) rest (r1, o1, w1, [url])"
    using first by (simp add: urlGetFirstObject_def asArray_def catchWith_def)
  show ?thesis
  proof (cases r1)
    case (Inr v)
    then show ?thesis using first unfold by (simp add: fold_catchWith_fulfilled)
  next
    case (Inl e)
    show ?thesis
    proof (cases "rest = []")
      case True
      then show ?thesis using first unfold Inl by simp
    next
      case False
      have "fold (catchWith c) rest (Inl e, o1, w1, [url]) =
          (case fold (catchWith c) rest (Inl e, o1, w1, []) of
             (r', opts', w', attempted') \<Rightarrow> (r', opts', w', [url] @ attempted'))"
        by (rule fold_catchWith_log)
      also have "fold (catchWith c) rest (Inl e, o1, w1, []) =
          fold (catchWith c) rest (Inl Undefined, o1, w1, [])"
        using False by (rule fold_catchWith_any_reason)
      also have "\<dots> = urlGetFirstObject c (Many rest) (Some o1) w1"
        by (simp add: urlGetFirstObject_def asArray_def optionsOrDefault_def)
      finally show ?thesis using first unfold Inl False by simp
    qed
  qed
qed

lemma fold_catchWith_attempted:
  "\<exists>t. snd (snd (snd (fold (catchWith c) urls (r, opts, w, attempted)))) = attempted @ t
       \<and> prefix t urls"
proof (induction urls arbitrary: r opts w attempted)
  case Nil
  then show ?case by simp
next
  case (Cons url urls)
  show ?case
  proof (cases r)
    case (Inr v)
    have "catchWith c url (Inr v, opts, w, attempted) = (Inr v, opts, w, attempted)"
      by (simp add: catchWith_def)
    then show ?thesis using Inr by (simp add: fold_catchWith_fulfilled)
  next
    case (Inl e)
    obtain r1 o1 w1 where first: "urlGetObject c url (Some opts) w = (r1, o1, w1)"
      by (cases "urlGetObject c url (Some opts) w") auto
    obtain t where t: "snd (snd (snd (fold (catchWith c) urls (r1, o1, w1, attempted @ [url]))))
        = (attempted @ [url]) @ t" "prefix t urls"
      using Cons.IH [of r1 o1 w1 "attempted @ [url]"] by blast
    have "catchWith c url (Inl e, opts, w, attempted) = (r1, o1, w1, attempted @ [url])"
      using first by (simp add: catchWith_def)
    then have "snd (snd (snd (fold (catchWith c) (url # urls) (r, opts, w, attempted))))
        = attempted @ (url # t)"
      using Inl t(1) by simp
    moreover have "prefix (url # t) (url # urls)" using t(2) by simp
    ultimately show ?thesis by blast
  qed
qed

lemma urlGetFirstObject_attempted_prefix:
  "(case urlGetFirstObject c urls optionsArg w of
      (r, options', w', attempted) \<Rightarrow> prefix attempted (asArray urls))"
  using fold_catchWith_attempted [of c "asArray urls" "Inl Undefined"
      "optionsOrDefault optionsArg" w "[]"]
  by (auto simp: urlGetFirstObject_def Let_def split: prod.splits)

text \<open>
  Claim C1. On a non-empty list, \<open>urlGetFirstObject\<close> first attempts the first
  candidate and nothing else. If that attempt succeeds, its value is the result and no
  later candidate is attempted. If it fails and it was the last candidate, its error
  is the result. If it fails and candidates remain, its error is dropped and the
  result is that of the remaining candidates, attempted in the same way from the
  options and the world the failed attempt left behind. So the candidates are
  attempted left to right, one after a failure of the one before, the first success
  is returned, and when all fail the error is the last candidate's. On any list, the
  candidates attempted are an initial segment of the list, in its order.
\<close>

theorem urlGetFirstObject_sequential:
  "urlGetFirstObject c (Many (url # rest)) optionsArg w =
     (case urlGetObject c url (Some (optionsOrDefault optionsArg)) w of
        (Inr v, options', w') \<Rightarrow> (Inr v, options', w', [url])
      | (Inl e, options', w') \<Rightarrow>
          if rest = [] then (Inl e, options', w', [url])
          else (case urlGetFirstObject c (Many rest) (Some options') w' of
                  (r, options'', w'', attempted) \<Rightarrow> (r, options'', w'', url # attempted)))
   \<and> (case urlGetFirstObject c urls optionsArg w of
         (r, options', w', attempted) \<Rightarrow> prefix attempted (asArray urls))"
  using urlGetFirstObject_unfold [of c url rest optionsArg w]
    urlGetFirstObject_attempted_prefix [where c = c and urls = urls
      and optionsArg = optionsArg and w = w]
  by simp

theorem urlGetFirstObject_sequential_witness:
  "urlGetFirstObject sampleCollaborators
       (Many [''/tmp/missing.yaml'', ''file:///tmp/x.yaml'']) None [] =
     (Inr (JObject [(''a'', JString ''A'')]), Map.empty,
      [''/tmp/missing.yaml'', ''/tmp/x.yaml''],
      [''/tmp/missing.yaml'', ''file:///tmp/x.yaml''])
   \<and> urlGetFirstObject sampleCollaborators
       (Many [''http://h.example/y.yaml'', ''/tmp/missing.yaml'']) None [] =
     (Inl (SystemError ''ENOENT''),
      [''uri'' \<mapsto> JString ''http://h.example/y.yaml'', ''method'' \<mapsto> JString ''get'',
       ''timeout'' \<mapsto> JNumber 120000],
      [''http://h.example/y.yaml'', ''/tmp/missing.yaml''],
      [''http://h.example/y.yaml'', ''/tmp/missing.yaml''])"
  using urlGetFirstObject_sequential [where c = sampleCollaborators
      and url = "''/tmp/missing.yaml''" and rest = "[''file:///tmp/x.yaml'']"
      and optionsArg = None and w = "[]" and urls = "Many []"]
    urlGetFirstObject_sequential [where c = sampleCollaborators
      and url = "''file:///tmp/x.yaml''" and rest = "[]"
      and optionsArg = "Some Map.empty" and w = "[''/tmp/missing.yaml'']" and urls = "Many []"]
    urlGetFirstObject_sequential [where c = sampleCollaborators
      and url = "''http://h.example/y.yaml''" and rest = "[''/tmp/missing.yaml'']"
      and optionsArg = None and w = "[]" and urls = "Many []"]
    urlGetFirstObject_sequential [where c = sampleCollaborators
      and url = "''/tmp/missing.yaml''" and rest = "[]"
      and optionsArg = "Some [''uri'' \<mapsto> JString ''http://h.example/y.yaml'',
          ''method'' \<mapsto> JString ''get'', ''timeout'' \<mapsto> JNumber 120000]"
      and w = "[''http://h.example/y.yaml'']" and urls = "Many []"]
  by (simp add: sample_missing_file sample_file_url sample_remote_missing
      sample_missing_file_after optionsOrDefault_def)

subsection \<open>The content fetcher\<close>

lemmas sample_eval =
  sampleCollaborators_def urlGet_def urlGetObject_def objectFactory_def optionsOrDefault_def
  uriHasProtocol_def regexTest_def uriProtocolRegex_def inClass_def charCode_def

text \<open>
  Claim C4, as the code has it. The claim says that a \<^verbatim>\<open>file://\<close> URL is read at the
  path left when the scheme is stripped, and that a response outside 200 to 299 fails
  the call. The code reads the path name of the parsed URL, which drops the authority
  as well, and returns the body of whatever response the client fulfils with, here a
  redirect that the options told the client not to follow:
\<close>

theorem urlGet_reads_pathname_checks_no_status:
  "urlGet sampleCollaborators ''file://localhost/tmp/x.yaml'' None [] =
     (Inr (JBuffer ''a: A''), Map.empty, [''/tmp/x.yaml''])
   \<and> drop (length ''file://'') ''file://localhost/tmp/x.yaml'' = ''localhost/tmp/x.yaml''
   \<and> fst (preqGet sampleCollaborators
        [''followRedirect'' \<mapsto> JBoolean False,
         ''uri'' \<mapsto> JString ''http://h.example/moved.yaml''] []) =
     Inr \<lparr> status = 301, body = JString ''Moved Permanently'' \<rparr>
   \<and> fst (urlGet sampleCollaborators ''http://h.example/moved.yaml''
        (Some [''followRedirect'' \<mapsto> JBoolean False]) []) =
     Inr (JString ''Moved Permanently'')"
  by (simp add: sample_eval)

text \<open>
  Claim C4, amended. \<open>urlGet\<close> dispatches on the URL. Without a protocol, the URL
  itself is read as a file path, with the options. When it starts with
  \<^verbatim>\<open>file://\<close> (which implies a protocol), the URL is parsed and the path name of the
  parsed URL is read, with the options; when parsing throws, the call fails with that
  error and nothing is read. Otherwise the URL is stored in the field \<^verbatim>\<open>uri\<close> of the
  options, the HTTP client is called with them, and the call returns the body of the
  response when the client fulfils and fails with the client's error when it rejects.
  On a remote URL the call fails exactly when the client fails: the module checks no
  status itself.
\<close>

theorem urlGet_dispatch:
  "(\<not> uriHasProtocol url \<longrightarrow>
      urlGet c url optionsArg w = readFile c url (optionsOrDefault optionsArg) w)
   \<and> (prefix ''file://'' url \<longrightarrow>
      urlGet c url optionsArg w =
        (case urlPathname c url of
           Inl e \<Rightarrow> (Inl e, optionsOrDefault optionsArg, w)
         | Inr pathname \<Rightarrow> readFile c pathname (optionsOrDefault optionsArg) w))
   \<and> (uriHasProtocol url \<and> \<not> prefix ''file://'' url \<longrightarrow>
      urlGet c url optionsArg w =
        (case preqGet c ((optionsOrDefault optionsArg)(''uri'' \<mapsto> JString url)) w of
           (Inl e, options', w') \<Rightarrow> (Inl e, options', w')
         | (Inr res, options', w') \<Rightarrow> (Inr (body res), options', w'))
      \<and> (isl (fst (urlGet c url optionsArg w)) \<longleftrightarrow>
           isl (fst (preqGet c ((optionsOrDefault optionsArg)(''uri'' \<mapsto> JString url)) w))))"
  by (auto simp: urlGet_def Let_def split: prod.splits sum.splits
      dest: prefix_file_has_protocol)

theorem urlGet_dispatch_witness:
  "urlGet sampleCollaborators ''/tmp/x.yaml'' (Some [''encoding'' \<mapsto> JString ''utf8'']) [] =
     (Inr (JBuffer ''a: A''), [''encoding'' \<mapsto> JString ''utf8''], [''/tmp/x.yaml''])
   \<and> urlGet sampleCollaborators ''file:///tmp/x.yaml''
       (Some [''encoding'' \<mapsto> JString ''utf8'']) [] =
     (Inr (JBuffer ''a: A''), [''encoding'' \<mapsto> JString ''utf8''], [''/tmp/x.yaml''])
   \<and> urlGet sampleCollaborators ''http://h.example/x.yaml''
       (Some [''encoding'' \<mapsto> JString ''utf8'']) [] =
     (Inr (JString ''a: A''),
      [''encoding'' \<mapsto> JString ''utf8'', ''uri'' \<mapsto> JString ''http://h.example/x.yaml'',
       ''method'' \<mapsto> JString ''get'', ''timeout'' \<mapsto> JNumber 120000],
      [''http://h.example/x.yaml''])
   \<and> urlGet sampleCollaborators ''http://h.example/y.yaml''
       (Some [''encoding'' \<mapsto> JString ''utf8'']) [] =
     (Inl (HTTPError 404),
      [''encoding'' \<mapsto> JString ''utf8'', ''uri'' \<mapsto> JString ''http://h.example/y.yaml'',
       ''method'' \<mapsto> JString ''get'', ''timeout'' \<mapsto> JNumber 120000],
      [''http://h.example/y.yaml''])"
proof -
  have a: "\<not> uriHasProtocol ''/tmp/x.yaml''"
    by (simp add: uriHasProtocol_def regexTest_def uriProtocolRegex_def inClass_def charCode_def)
  have b: "prefix ''file://'' ''file:///tmp/x.yaml''"
    by simp
  have c: "uriHasProtocol ''http://h.example/x.yaml''
      \<and> \<not> prefix ''file://'' ''http://h.example/x.yaml''"
    by (simp add: uriHasProtocol_def regexTest_def uriProtocolRegex_def inClass_def charCode_def)
  have d: "uriHasProtocol ''http://h.example/y.yaml''
      \<and> \<not> prefix ''file://'' ''http://h.example/y.yaml''"
    by (simp add: uriHasProtocol_def regexTest_def uriProtocolRegex_def inClass_def charCode_def)
  show ?thesis
    using urlGet_dispatch [of "''/tmp/x.yaml''" sampleCollaborators
        "Some [''encoding'' \<mapsto> JString ''utf8'']" "[]"]
      urlGet_dispatch [of "''file:///tmp/x.yaml''" sampleCollaborators
        "Some [''encoding'' \<mapsto> JString ''utf8'']" "[]"]
      urlGet_dispatch [of "''http://h.example/x.yaml''" sampleCollaborators
        "Some [''encoding'' \<mapsto> JString ''utf8'']" "[]"]
      urlGet_dispatch [of "''http://h.example/y.yaml''" sampleCollaborators
        "Some [''encoding'' \<mapsto> JString ''utf8'']" "[]"]
      a b c d
    by (simp add: sampleCollaborators_def optionsOrDefault_def)
qed

subsection \<open>The options object\<close>

lemma urlGet_options_after:
  "optionsAfter (urlGet c url (Some options) w) =
     (if \<not> uriHasProtocol url then optionsAfter (readFile c url options w)
      else if prefix ''file://'' url
      then (case urlPathname c url of
              Inl e \<Rightarrow> options
            | Inr pathname \<Rightarrow> optionsAfter (readFile c pathname options w))
      else optionsAfter (preqGet c (options(''uri'' \<mapsto> JString url)) w))"
  by (auto simp: urlGet_def optionsOrDefault_def optionsAfter_def Let_def
      split: prod.splits sum.splits)

lemma urlGetObject_options:
  "optionsAfter (urlGetObject c url (Some options) w) =
     optionsAfter (urlGet c url (Some options) w)"
  by (auto simp: urlGetObject_def optionsOrDefault_def optionsAfter_def Let_def
      split: prod.splits sum.splits)

lemma urlGet_frame:
  assumes "field \<noteq> ''uri''"
    and "\<forall>path opts w0. optionsAfter (readFile c path opts w0) field = opts field"
    and "\<forall>opts w0. optionsAfter (preqGet c opts w0) field = opts field"
  shows "optionsAfter (urlGet c url (Some options) w) field = options field"
  using assms by (simp add: urlGet_options_after split: sum.splits)

lemma catchWith_frame:
  assumes "field \<noteq> ''uri''"
    and "\<forall>path opts w0. optionsAfter (readFile c path opts w0) field = opts field"
    and "\<forall>opts w0. optionsAfter (preqGet c opts w0) field = opts field"
  shows "optionsAfter (catchWith c url (r, opts, w, attempted)) field = opts field"
proof (cases r)
  case (Inr v)
  then show ?thesis by (simp add: catchWith_def optionsAfter_def)
next
  case (Inl e)
  have "optionsAfter (urlGetObject c url (Some opts) w) field = opts field"
    using urlGet_frame [OF assms] by (simp add: urlGetObject_options)
  then show ?thesis using Inl
    by (cases "urlGetObject c url (Some opts) w")
       (simp add: catchWith_def optionsAfter_def)
qed

lemma fold_catchWith_frame:
  assumes "field \<noteq> ''uri''"
    and "\<forall>path opts w0. optionsAfter (readFile c path opts w0) field = opts field"
    and "\<forall>opts w0. optionsAfter (preqGet c opts w0) field = opts field"
  shows "optionsAfter (fold (catchWith c) urls (r, opts, w, attempted)) field = opts field"
proof (induction urls arbitrary: r opts w attempted)
  case Nil
  then show ?case by (simp add: optionsAfter_def)
next
  case (Cons url urls)
  obtain r1 o1 w1 t1 where step: "catchWith c url (r, opts, w, attempted) = (r1, o1, w1, t1)"
    by (cases "catchWith c url (r, opts, w, attempted)") auto
  have "o1 field = opts field"
    using catchWith_frame [OF assms, of url r opts w attempted] step
    by (simp add: optionsAfter_def)
  then show ?case using Cons.IH [of r1 o1 w1 t1] step by simp
qed

lemma sample_keeps_encoding:
  "(\<forall>path opts w0.
      optionsAfter (readFile sampleCollaborators path opts w0) ''encoding'' = opts ''encoding'')
   \<and> (\<forall>opts w0.
      optionsAfter (preqGet sampleCollaborators opts w0) ''encoding'' = opts ''encoding'')"
  by (simp add: sampleCollaborators_def optionsAfter_def Let_def
      split: option.splits jsval.splits)

text \<open>
  Claim C5, as the code has it. The claim says that the options object is never
  written; on a remote URL the code stores the URL in its field \<^verbatim>\<open>uri\<close>:
\<close>

theorem urlGet_writes_uri_into_options:
  "optionsAfter (urlGet sampleCollaborators ''http://h.example/x.yaml''
       (Some [''encoding'' \<mapsto> JString ''utf8'']) []) ''uri''
     = Some (JString ''http://h.example/x.yaml'')
   \<and> [''encoding'' \<mapsto> JString ''utf8''] ''uri'' = None"
  by (simp add: optionsAfter_def sample_eval)

text \<open>
  Claim C5, amended. \<open>urlGet\<close> hands the caller's options object itself to the
  collaborator. On a path without protocol or on a \<^verbatim>\<open>file://\<close> URL it writes nothing
  into it before the reader receives it; on any other URL it writes the one field
  \<^verbatim>\<open>uri\<close>, set to the URL, and nothing else, before the HTTP client receives it.
  After the call the object holds what the collaborator that received it left in it
  (an HTTP client may store its method and defaults there), and \<open>urlGetObject\<close> adds
  no write. So a field other than \<^verbatim>\<open>uri\<close> that neither the reader nor the client
  writes holds after \<open>urlGetFirstObject\<close> and \<open>uriGetFirstObject\<close> what it held
  before.
\<close>

theorem options_only_uri_written:
  "(\<not> uriHasProtocol url \<longrightarrow>
      optionsAfter (urlGet c url (Some options) w) = optionsAfter (readFile c url options w))
   \<and> (prefix ''file://'' url \<longrightarrow>
      optionsAfter (urlGet c url (Some options) w) =
        (case urlPathname c url of
           Inl e \<Rightarrow> options
         | Inr pathname \<Rightarrow> optionsAfter (readFile c pathname options w)))
   \<and> (uriHasProtocol url \<and> \<not> prefix ''file://'' url \<longrightarrow>
      optionsAfter (urlGet c url (Some options) w) =
        optionsAfter (preqGet c (options(''uri'' \<mapsto> JString url)) w))
   \<and> optionsAfter (urlGetObject c url (Some options) w) =
       optionsAfter (urlGet c url (Some options) w)
   \<and> (field \<noteq> ''uri''
       \<and> (\<forall>path opts w0. optionsAfter (readFile c path opts w0) field = opts field)
       \<and> (\<forall>opts w0. optionsAfter (preqGet c opts w0) field = opts field) \<longrightarrow>
      optionsAfter (urlGetFirstObject c urls (Some options) w) field = options field
      \<and> optionsAfter (uriGetFirstObject c uri baseUris defaultFileExtension (Some options) w)
            field = options field)"
proof -
  have frame: "optionsAfter (urlGetFirstObject c urls (Some options) w) field = options field
      \<and> optionsAfter (uriGetFirstObject c uri baseUris defaultFileExtension (Some options) w)
            field = options field"
    if "field \<noteq> ''uri''"
      and "\<forall>path opts w0. optionsAfter (readFile c path opts w0) field = opts field"
      and "\<forall>opts w0. optionsAfter (preqGet c opts w0) field = opts field"
    using fold_catchWith_frame [OF that]
    by (simp add: urlGetFirstObject_def uriGetFirstObject_def optionsOrDefault_def Let_def)
  have local_url: "uriHasProtocol url" if "prefix ''file://'' url"
    using that by (rule prefix_file_has_protocol)
  show ?thesis
    using frame local_url by (auto simp: urlGet_options_after urlGetObject_options)
qed

theorem options_only_uri_written_witness:
  "optionsAfter (urlGet sampleCollaborators ''/tmp/x.yaml''
       (Some [''encoding'' \<mapsto> JString ''utf8'']) []) = [''encoding'' \<mapsto> JString ''utf8'']
   \<and> optionsAfter (urlGet sampleCollaborators ''http://h.example/y.yaml''
       (Some [''encoding'' \<mapsto> JString ''utf8'']) []) =
       [''encoding'' \<mapsto> JString ''utf8'', ''uri'' \<mapsto> JString ''http://h.example/y.yaml'',
        ''method'' \<mapsto> JString ''get'', ''timeout'' \<mapsto> JNumber 120000]
   \<and> optionsAfter (urlGetFirstObject sampleCollaborators
       (Many [''http://h.example/y.yaml'', ''/tmp/x.yaml''])
       (Some [''encoding'' \<mapsto> JString ''utf8'']) []) ''encoding'' = Some (JString ''utf8'')"
proof -
  have a: "\<not> uriHasProtocol ''/tmp/x.yaml''"
    by (simp add: uriHasProtocol_def regexTest_def uriProtocolRegex_def inClass_def charCode_def)
  have b: "uriHasProtocol ''http://h.example/y.yaml''
      \<and> \<not> prefix ''file://'' ''http://h.example/y.yaml''"
    by (simp add: uriHasProtocol_def regexTest_def uriProtocolRegex_def inClass_def charCode_def)
  have c: "''encoding'' \<noteq> ''uri''"
    by simp
  have d: "optionsAfter (readFile sampleCollaborators ''/tmp/x.yaml''
        [''encoding'' \<mapsto> JString ''utf8''] []) = [''encoding'' \<mapsto> JString ''utf8'']"
    by (simp add: sampleCollaborators_def optionsAfter_def)
  have e: "optionsAfter (preqGet sampleCollaborators
        [''encoding'' \<mapsto> JString ''utf8'', ''uri'' \<mapsto> JString ''http://h.example/y.yaml''] []) =
       [''encoding'' \<mapsto> JString ''utf8'', ''uri'' \<mapsto> JString ''http://h.example/y.yaml'',
        ''method'' \<mapsto> JString ''get'', ''timeout'' \<mapsto> JNumber 120000]"
    by (simp add: sampleCollaborators_def optionsAfter_def)
  show ?thesis
    using options_only_uri_written [where c = sampleCollaborators and url = "''/tmp/x.yaml''"
        and options = "[''encoding'' \<mapsto> JString ''utf8'']" and w = "[]"
        and field = "''encoding''"
        and urls = "Many [''http://h.example/y.yaml'', ''/tmp/x.yaml'']"]
      options_only_uri_written [where c = sampleCollaborators
        and url = "''http://h.example/y.yaml''"
        and options = "[''encoding'' \<mapsto> JString ''utf8'']" and w = "[]"
        and field = "''encoding''"
        and urls = "Many [''http://h.example/y.yaml'', ''/tmp/x.yaml'']"]
      sample_keeps_encoding a b c d e
    by simp
qed

subsection \<open>The object decoder\<close>

text \<open>
  Claim C6, as the code has it. The claim says that \<open>objectFactory\<close> fails exactly
  when its argument is neither an object, a buffer nor a string; it also fails on a
  string that the YAML parser rejects:
\<close>

theorem objectFactory_malformed_text_fails:
  "objectFactory sampleCollaborators (JString ''['') =
     Inl (YAMLException ''unexpected end of the stream'')
   \<and> isString (JString ''['')"
  by (simp add: objectFactory_def sampleCollaborators_def isObject_def isString_def)

text \<open>
  Claim C6, amended. \<open>objectFactory\<close> returns an object that is not a buffer as it
  is; it parses the text of a buffer, and a string, as YAML; on anything else (such as
  the number 42) it fails with its own error. It fails exactly when its argument is
  none of the three shapes, or is a string or a buffer whose text the YAML parser
  rejects; the error is then the parser's.
\<close>

theorem objectFactory_shapes:
  "(isObject data \<and> \<not> instanceofBuffer data \<longrightarrow> objectFactory c data = Inr data)
   \<and> objectFactory c (JBuffer bytes) = safeLoad c (bufferToString c bytes)
   \<and> objectFactory c (JString text) = safeLoad c text
   \<and> (\<not> isObject data \<and> \<not> isString data \<longrightarrow>
        (\<exists>message. objectFactory c data = Inl (Error message)))
   \<and> (isl (objectFactory c data) \<longleftrightarrow>
        (\<not> isObject data \<and> \<not> isString data)
        \<or> (\<exists>t. data = JString t \<and> isl (safeLoad c t))
        \<or> (\<exists>b. data = JBuffer b \<and> isl (safeLoad c (bufferToString c b))))"
  by (cases data) (simp_all add: objectFactory_def isObject_def isString_def instanceofBuffer_def)

theorem objectFactory_shapes_witness:
  "objectFactory sampleCollaborators (JObject [(''a'', JString ''A'')]) =
     Inr (JObject [(''a'', JString ''A'')])
   \<and> isl (objectFactory sampleCollaborators (JNumber 42))
   \<and> objectFactory sampleCollaborators (JBuffer ''a: A'') = Inr (JObject [(''a'', JString ''A'')])
   \<and> isl (objectFactory sampleCollaborators (JString ''[''))"
proof -
  have a: "isObject (JObject [(''a'', JString ''A'')])
      \<and> \<not> instanceofBuffer (JObject [(''a'', JString ''A'')])"
    by (simp add: isObject_def instanceofBuffer_def)
  have b: "\<not> isObject (JNumber 42) \<and> \<not> isString (JNumber 42)"
    by (simp add: isObject_def isString_def)
  show ?thesis
    using objectFactory_shapes [of "JObject [(''a'', JString ''A'')]" sampleCollaborators
        "''a: A''" "''[''"]
      objectFactory_shapes [of "JNumber 42" sampleCollaborators "''a: A''" "''[''"] a b
    by (simp add: sampleCollaborators_def)
qed

subsection \<open>The two entry points of the fallback\<close>

text \<open>
  Claim C10. On the empty list of candidates \<open>urlGetFirstObject\<close> fails at once,
  with the reason of the seed \<^verbatim>\<open>P.reject()\<close>, which is \<^verbatim>\<open>undefined\<close>; nothing is
  attempted and the world is untouched. \<open>uriGetFirstObject\<close> on the empty list of base
  locations fails in the same way.
\<close>

theorem urlGetFirstObject_empty:
  "urlGetFirstObject c (Many []) optionsArg w =
     (Inl Undefined, optionsOrDefault optionsArg, w, [])
   \<and> uriGetFirstObject c uri (Many []) defaultFileExtension optionsArg w =
       (Inl Undefined, optionsOrDefault optionsArg, w, [])"
  by (simp add: urlGetFirstObject_def uriGetFirstObject_def asArray_def optionsOrDefault_def)

theorem urlGetFirstObject_empty_witness:
  "urlGetFirstObject sampleCollaborators (Many []) None [] = (Inl Undefined, Map.empty, [], [])
   \<and> uriGetFirstObject sampleCollaborators ''x.yaml'' (Many []) None None [] =
       (Inl Undefined, Map.empty, [], [])"
  using urlGetFirstObject_empty [of sampleCollaborators None "[]" "''x.yaml''" None]
  by (simp add: optionsOrDefault_def)

text \<open>
  Claim C9. \<open>uriGetFirstObject\<close> is \<open>urlGetFirstObject\<close> on the list obtained by
  resolving the identifier against each base location in order, with the same
  options, in the same world: same outcome, same options afterwards, same world
  afterwards, same candidates attempted. A base location, or a URL, that is not an
  array is treated as the array of that one element.
\<close>

theorem uriGetFirstObject_delegates:
  "uriGetFirstObject c uri baseUris defaultFileExtension optionsArg w =
     urlGetFirstObject c
       (Many (map (\<lambda>b. resolveUri (pathResolve c) uri b defaultFileExtension) (asArray baseUris)))
       optionsArg w
   \<and> uriGetFirstObject c uri (One baseUri) defaultFileExtension optionsArg w =
       uriGetFirstObject c uri (Many [baseUri]) defaultFileExtension optionsArg w
   \<and> urlGetFirstObject c (One url) optionsArg w = urlGetFirstObject c (Many [url]) optionsArg w"
  by (cases optionsArg)
     (simp_all add: urlGetFirstObject_def uriGetFirstObject_def asArray_def optionsOrDefault_def)

theorem uriGetFirstObject_delegates_witness:
  "uriGetFirstObject sampleCollaborators ''x''
       (Many [Some ''file:///non_existant1/'', Some ''file:///tmp/'']) (Some ''.yaml'') None [] =
     urlGetFirstObject sampleCollaborators
       (Many [''file:///non_existant1/x.yaml'', ''file:///tmp/x.yaml'']) None []"
proof -
  have "map (\<lambda>b. resolveUri (pathResolve sampleCollaborators) ''x'' b (Some ''.yaml''))
          (asArray (Many [Some ''file:///non_existant1/'', Some ''file:///tmp/'']))
        = [''file:///non_existant1/x.yaml'', ''file:///tmp/x.yaml'']"
    by code_simp
  then show ?thesis
    using uriGetFirstObject_delegates [of sampleCollaborators "''x''"
        "Many [Some ''file:///non_existant1/'', Some ''file:///tmp/'']" "Some ''.yaml''" None "[]"]
    by simp
qed

end
